theory Spec2Isabelle
  imports Complex_Main "HOL-Library.Sublist"
begin

section \<open>JavaScript values\<close>

text \<open>
  The values the code handles are JSON data (what \<^verbatim>\<open>response.json()\<close>, \<^verbatim>\<open>request.json()\<close>
  and the bindings deliver) and \<^verbatim>\<open>undefined\<close>. A string is a list of code units; the
  model covers code units below 256. A number is a rational (every finite double is one).
  \<open>JObj\<close> lists the own properties of an object in enumeration order, keys distinct.
\<close>

datatype json =
    JNull
  | JBool bool
  | JNum rat
  | JStr string
  | JArr "json list"
  | JObj "(string \<times> json) list"

datatype jsval = Undefined | Val json

text \<open>A thrown \<^verbatim>\<open>Error\<close> object (TypeError, SyntaxError, DOMException) with its message.\<close>

datatype js_error = Error (message: string)

text \<open>ToBoolean.\<close>

fun truthy :: "jsval \<Rightarrow> bool" where
  "truthy Undefined = False"
| "truthy (Val JNull) = False"
| "truthy (Val (JBool b)) = b"
| "truthy (Val (JNum n)) = (n \<noteq> 0)"
| "truthy (Val (JStr s)) = (s \<noteq> [])"
| "truthy (Val (JArr xs)) = True"
| "truthy (Val (JObj kvs)) = True"

text \<open>\<^verbatim>\<open>a || b\<close> where \<open>b\<close> is a JSON value.\<close>

fun or_else :: "jsval \<Rightarrow> json \<Rightarrow> json" where
  "or_else Undefined d = d"
| "or_else (Val v) d = (if truthy (Val v) then v else d)"

text \<open>\<^verbatim>\<open>typeof v === 'string'\<close>.\<close>

fun is_string :: "jsval \<Rightarrow> bool" where
  "is_string (Val (JStr s)) = True"
| "is_string _ = False"

text \<open>
  A canonical array index: \<^verbatim>\<open>"0"\<close>, or decimal digits without a leading zero.
\<close>

definition is_digit :: "char \<Rightarrow> bool" where
  "is_digit c = (48 \<le> (of_char c :: nat) \<and> (of_char c :: nat) \<le> 57)"

definition array_index :: "string \<Rightarrow> nat option" where
  "array_index k =
     (if k = [] \<or> \<not> list_all is_digit k \<or> (hd k = CHR ''0'' \<and> length k > 1) then None
      else Some (foldl (\<lambda>n c. 10 * n + ((of_char c :: nat) - 48)) 0 k))"

text \<open>
  Property read \<^verbatim>\<open>v.k\<close> / \<^verbatim>\<open>v[k]\<close> on a JSON value: a TypeError on \<^verbatim>\<open>null\<close>, the own
  property of an object, \<^verbatim>\<open>length\<close> and the indexed elements of an array or a string,
  \<^verbatim>\<open>undefined\<close> otherwise.
\<close>

fun get_prop :: "json \<Rightarrow> string \<Rightarrow> js_error + jsval" where
  "get_prop JNull k = Inl (Error (''Cannot read properties of null (reading '' @ [CHR 0x27] @ k @ [CHR 0x27] @ '')''))"
| "get_prop (JObj kvs) k = Inr (case map_of kvs k of None \<Rightarrow> Undefined | Some v \<Rightarrow> Val v)"
| "get_prop (JArr xs) k =
     Inr (if k = ''length'' then Val (JNum (of_nat (length xs)))
          else (case array_index k of
                  None \<Rightarrow> Undefined
                | Some i \<Rightarrow> if i < length xs then Val (xs ! i) else Undefined))"
| "get_prop (JStr s) k =
     Inr (if k = ''length'' then Val (JNum (of_nat (length s)))
          else (case array_index k of
                  None \<Rightarrow> Undefined
                | Some i \<Rightarrow> if i < length s then Val (JStr [s ! i]) else Undefined))"
| "get_prop (JBool b) k = Inr Undefined"
| "get_prop (JNum n) k = Inr Undefined"

text \<open>Property read on a value that may be \<^verbatim>\<open>undefined\<close>.\<close>

fun get_prop_val :: "jsval \<Rightarrow> string \<Rightarrow> js_error + jsval" where
  "get_prop_val Undefined k =
     Inl (Error (''Cannot read properties of undefined (reading '' @ [CHR 0x27] @ k @ [CHR 0x27] @ '')''))"
| "get_prop_val (Val v) k = get_prop v k"

text \<open>
  An object literal as \<^verbatim>\<open>JSON.stringify\<close> writes it: a property whose value is
  \<^verbatim>\<open>undefined\<close> is left out.
\<close>

fun object_literal :: "(string \<times> jsval) list \<Rightarrow> (string \<times> json) list" where
  "object_literal [] = []"
| "object_literal ((k, Undefined) # kvs) = object_literal kvs"
| "object_literal ((k, Val v) # kvs) = (k, v) # object_literal kvs"

text \<open>The text \<^verbatim>\<open>JSON.stringify(v)\<close>, kept as the value it is the text of.\<close>

datatype json_text = JSON_stringify json

subsection \<open>Strings\<close>

text \<open>
  \<^verbatim>\<open>String.prototype.trim\<close> removes white space and line terminators from both ends;
  below 256 these are TAB, LF, VT, FF, CR, SPACE and NBSP.
\<close>

definition isWhiteSpace :: "char \<Rightarrow> bool" where
  "isWhiteSpace c = ((of_char c :: nat) \<in> {9, 10, 11, 12, 13, 32, 160})"

definition trim :: "string \<Rightarrow> string" where
  "trim s = rev (dropWhile isWhiteSpace (rev (dropWhile isWhiteSpace s)))"

text \<open>
  \<^verbatim>\<open>String.prototype.toUpperCase\<close>, exact on ASCII. A code unit from 128 to 255 is kept
  here. JavaScript moves the letters 0xE0 to 0xFE (but 0xF7) down by 32, turns 0xB5 and
  0xFF into code units above 255 and 0xDF into \<^verbatim>\<open>SS\<close>; none of these results is an ASCII
  letter but the last. No keyword of \<open>sqlKeywords\<close> below holds \<^verbatim>\<open>SS\<close> or ends with \<^verbatim>\<open>S\<close>,
  so the test whether the upper-cased text starts with a keyword comes out the same on
  every string of the model.
\<close>

definition upper_char :: "char \<Rightarrow> char" where
  "upper_char c =
     (if 97 \<le> (of_char c :: nat) \<and> (of_char c :: nat) \<le> 122
      then char_of ((of_char c :: nat) - 32) else c)"

definition toUpperCase :: "string \<Rightarrow> string" where
  "toUpperCase s = map upper_char s"

text \<open>\<^verbatim>\<open>s.startsWith(k)\<close> and \<^verbatim>\<open>s.includes(k)\<close> (named \<open>includes_str\<close> here).\<close>

definition startsWith :: "string \<Rightarrow> string \<Rightarrow> bool" where
  "startsWith s k = prefix k s"

fun includes_str :: "string \<Rightarrow> string \<Rightarrow> bool" where
  "includes_str [] k = (k = [])"
| "includes_str (c # s) k = (prefix k (c # s) \<or> includes_str s k)"

section \<open>The frontend API service (frontend/src/services/api.js)\<close>

definition BASE_URL :: string where
  "BASE_URL = ''http://localhost:5000''"

text \<open>
  The options of a \<^verbatim>\<open>fetch\<close> call; the field \<^verbatim>\<open>method\<close> is named \<open>http_method\<close> here.
\<close>

record fetch_options =
  http_method :: string
  headers :: "(string \<times> string) list"
  body :: json_text

text \<open>
  A response: its status and what \<^verbatim>\<open>response.json()\<close> settles to (a rejection when the
  body is not JSON). \<^verbatim>\<open>response.ok\<close> is true for a status from 200 to 299.
\<close>

record response =
  status :: nat
  json_body :: "js_error + json"

definition ok :: "response \<Rightarrow> bool" where
  "ok r = (200 \<le> status r \<and> status r \<le> 299)"

text \<open>\<^verbatim>\<open>fetch\<close>: rejects with an error or resolves with a response.\<close>

type_synonym fetch = "string \<Rightarrow> fetch_options \<Rightarrow> js_error + response"

text \<open>The body of the \<^verbatim>\<open>try\<close> block of \<^verbatim>\<open>handleRequest\<close>; \<open>Inl\<close> is a throw.\<close>

definition handleRequest_try :: "fetch \<Rightarrow> string \<Rightarrow> fetch_options \<Rightarrow> js_error + json" where
  "handleRequest_try fetch u options =
     (case fetch u options of
        Inl err \<Rightarrow> Inl err
      | Inr response \<Rightarrow>
          if \<not> ok response then
            (case json_body response of
               Inl err \<Rightarrow> Inl err
             | Inr data \<Rightarrow>
                 (case get_prop data ''error'' of
                    Inl err \<Rightarrow> Inl err
                  | Inr e \<Rightarrow> Inr (JObj [(''error'', or_else e (JStr ''Request failed''))])))
          else json_body response)"

text \<open>
  \<^verbatim>\<open>handleRequest\<close>: the \<^verbatim>\<open>try\<close> block and its \<^verbatim>\<open>catch\<close>. The second component lists
  the calls of \<^verbatim>\<open>fetch\<close> that were made.
\<close>

definition handleRequest ::
  "fetch \<Rightarrow> string \<Rightarrow> fetch_options \<Rightarrow> (js_error + json) \<times> (string \<times> fetch_options) list" where
  "handleRequest fetch u options =
     (case handleRequest_try fetch u options of
        Inl err \<Rightarrow> Inr (JObj [(''error'', JStr (''Network error: '' @ message err))])
      | Inr v \<Rightarrow> Inr v,
      [(u, options)])"

definition createPostOptions :: "json \<Rightarrow> fetch_options" where
  "createPostOptions b =
     \<lparr> http_method = ''POST'',
       headers = [(''Content-Type'', ''application/json'')],
       body = JSON_stringify b \<rparr>"

fun isValidStringInput :: "jsval \<Rightarrow> bool" where
  "isValidStringInput (Val (JStr s)) = (length (trim s) > 0)"
| "isValidStringInput _ = False"

definition runSmartSQL ::
  "fetch \<Rightarrow> jsval \<Rightarrow> (js_error + json) \<times> (string \<times> fetch_options) list" where
  "runSmartSQL fetch query =
     (if \<not> isValidStringInput query
      then (Inr (JObj [(''error'', JStr ''Query cannot be empty'')]), [])
      else handleRequest fetch (BASE_URL @ ''/api/smartsql'')
             (createPostOptions (JObj (object_literal [(''query'', query)]))))"

section \<open>The Raindrop worker: POST /query\<close>

text \<open>
  A \<^verbatim>\<open>Response\<close> built as \<^verbatim>\<open>new Response(JSON.stringify(b), {status, headers})\<close>.
\<close>

record http_response =
  resp_status :: nat
  resp_headers :: "(string \<times> string) list"
  resp_body :: json_text

definition getCORSHeaders :: "(string \<times> string) list" where
  "getCORSHeaders =
     [(''Access-Control-Allow-Origin'', ''*''),
      (''Access-Control-Allow-Methods'', ''GET, POST, PUT, DELETE, OPTIONS''),
      (''Access-Control-Allow-Headers'', ''Content-Type, Authorization''),
      (''Content-Type'', ''application/json'')]"

definition json_response :: "nat \<Rightarrow> json \<Rightarrow> http_response" where
  "json_response code b =
     \<lparr> resp_status = code, resp_headers = getCORSHeaders, resp_body = JSON_stringify b \<rparr>"

text \<open>
  The bindings of \<^verbatim>\<open>env\<close>: \<^verbatim>\<open>env.SSQL.run(q)\<close>, and \<^verbatim>\<open>env.DB.prepare(q).all()\<close> taken as
  one call. Each throws or delivers a value; a binding that is not configured is \<open>None\<close>.
\<close>

record env =
  SSQL :: "(string \<Rightarrow> js_error + jsval) option"
  DB :: "(string \<Rightarrow> js_error + jsval) option"

text \<open>The calls a request makes on the bindings.\<close>

datatype effect = SSQL_run string | DB_all string

text \<open>
  The two readings of \<^verbatim>\<open>Date.now()\<close> around the call and the text of
  \<^verbatim>\<open>new Date().toISOString()\<close>.
\<close>

record clock =
  startTime :: int
  endTime :: int
  timestamp :: string

definition metadata :: "clock \<Rightarrow> string \<Rightarrow> json" where
  "metadata c trimmedQuery =
     JObj [(''query'', JStr trimmedQuery),
           (''executionTimeMs'', JNum (of_int (endTime c - startTime c))),
           (''timestamp'', JStr (timestamp c))]"

definition sqlKeywords :: "string list" where
  "sqlKeywords =
     [''SELECT'', ''INSERT'', ''UPDATE'', ''DELETE'', ''CREATE'', ''DROP'', ''ALTER'', ''PRAGMA'']"

definition isRawSQL :: "string \<Rightarrow> bool" where
  "isRawSQL trimmedQuery =
     list_ex (\<lambda>keyword. startsWith (trim (toUpperCase trimmedQuery)) keyword) sqlKeywords"

definition not_configured :: http_response where
  "not_configured =
     json_response 400
       (JObj [(''success'', JBool False),
              (''error'', JStr ''SmartSQL binding not configured. Natural language queries require SmartSQL.''),
              (''hint'', JStr ''For raw SQL, start your query with SELECT, INSERT, UPDATE, etc.'')])"

text \<open>The branch for a configured SmartSQL binding.\<close>

definition smartsql_branch ::
  "clock \<Rightarrow> (string \<Rightarrow> js_error + jsval) \<Rightarrow> string \<Rightarrow> js_error + http_response" where
  "smartsql_branch c run trimmedQuery =
     (case run trimmedQuery of
        Inl e \<Rightarrow> Inl e
      | Inr result \<Rightarrow>
          (case get_prop_val result ''sql'' of
             Inl e \<Rightarrow> Inl e
           | Inr sql \<Rightarrow>
               (case get_prop_val result ''results'' of
                  Inl e \<Rightarrow> Inl e
                | Inr results \<Rightarrow>
                    (case get_prop_val result ''rows'' of
                       Inl e \<Rightarrow> Inl e
                     | Inr rows \<Rightarrow>
                         Inr (json_response 200
                               (JObj [(''success'', JBool True),
                                      (''sql'', or_else sql (JStr trimmedQuery)),
                                      (''results'', or_else results (or_else rows (JArr []))),
                                      (''metadata'', metadata c trimmedQuery)]))))))"

text \<open>The branch for raw SQL on D1.\<close>

definition d1_branch ::
  "clock \<Rightarrow> (string \<Rightarrow> js_error + jsval) \<Rightarrow> string \<Rightarrow> js_error + http_response" where
  "d1_branch c all trimmedQuery =
     (case all trimmedQuery of
        Inl e \<Rightarrow> Inl e
      | Inr queryResult \<Rightarrow>
          (case get_prop_val queryResult ''results'' of
             Inl e \<Rightarrow> Inl e
           | Inr results \<Rightarrow>
               Inr (json_response 200
                     (JObj [(''success'', JBool True),
                            (''sql'', JStr trimmedQuery),
                            (''results'', or_else results (JArr [])),
                            (''metadata'', metadata c trimmedQuery)]))))"

text \<open>The inner \<^verbatim>\<open>try\<close> block of \<^verbatim>\<open>handleQuery\<close>, with the calls made on the bindings.\<close>

definition handleQuery_try ::
  "clock \<Rightarrow> env \<Rightarrow> string \<Rightarrow> (js_error + http_response) \<times> effect list" where
  "handleQuery_try c e trimmedQuery =
     (case SSQL e of
        Some run \<Rightarrow> (smartsql_branch c run trimmedQuery, [SSQL_run trimmedQuery])
      | None \<Rightarrow>
          (case DB e of
             Some all \<Rightarrow>
               if isRawSQL trimmedQuery
               then (d1_branch c all trimmedQuery, [DB_all trimmedQuery])
               else (Inr not_configured, [])
           | None \<Rightarrow> (Inr not_configured, [])))"

text \<open>What follows the validation of the query: the inner \<^verbatim>\<open>try\<close> and its \<^verbatim>\<open>catch\<close>.\<close>

definition run_query :: "clock \<Rightarrow> env \<Rightarrow> string \<Rightarrow> http_response \<times> effect list" where
  "run_query c e trimmedQuery =
     (case handleQuery_try c e trimmedQuery of
        (Inl sqlError, effs) \<Rightarrow>
          (json_response 500
             (JObj [(''success'', JBool False),
                    (''error'', or_else (Val (JStr (message sqlError))) (JStr ''Query execution failed''))]),
           effs)
      | (Inr r, effs) \<Rightarrow> (r, effs))"

definition invalid_json :: http_response where
  "invalid_json =
     json_response 400
       (JObj [(''success'', JBool False), (''error'', JStr ''Invalid JSON in request body'')])"

definition missing_query :: http_response where
  "missing_query =
     json_response 400
       (JObj [(''success'', JBool False),
              (''error'', JStr (''Request body must contain a '' @ [CHR 0x22] @ ''query'' @ [CHR 0x22]
                                @ '' field with a string value''))])"

text \<open>
  \<^verbatim>\<open>handleQuery\<close>; \<open>req_json\<close> is what \<^verbatim>\<open>request.json()\<close> settles to.
\<close>

definition handleQuery ::
  "clock \<Rightarrow> env \<Rightarrow> js_error + json \<Rightarrow> http_response \<times> effect list" where
  "handleQuery c e req_json =
     (case req_json of
        Inl err \<Rightarrow> (invalid_json, [])
      | Inr b \<Rightarrow>
          (case get_prop b ''query'' of
             Inl err \<Rightarrow> (invalid_json, [])
           | Inr query \<Rightarrow>
               (case query of
                  Val (JStr q) \<Rightarrow>
                    if \<not> truthy (Val (JStr q)) then
                      (missing_query, [])
                    else if \<not> truthy (Val (JStr (trim q))) then
                      (json_response 400
                         (JObj [(''success'', JBool False), (''error'', JStr ''Query cannot be empty'')]),
                       [])
                    else run_query c e (trim q)
                | _ \<Rightarrow>
                    (missing_query, []))))"

section \<open>The analytics dashboard (AnalyticsDashboard)\<close>

datatype metric_key = revenue | outstanding | vatDue

text \<open>The component's state; \<^verbatim>\<open>null\<close> is \<open>JNull\<close>.\<close>

record dashboard =
  metrics :: "metric_key \<Rightarrow> json"
  isLoadingMetrics :: "metric_key \<Rightarrow> bool"
  metricsError :: "metric_key \<Rightarrow> json"
  query :: string
  queryResults :: json
  isQuerying :: bool
  error :: json

fun DEMO_METRICS :: "metric_key \<Rightarrow> json" where
  "DEMO_METRICS revenue = JNum 125750"
| "DEMO_METRICS outstanding = JNum 12"
| "DEMO_METRICS vatDue = JNum (37725 / 2)"

text \<open>The decimal text of an array index.\<close>

fun string_of_nat :: "nat \<Rightarrow> string" where
  "string_of_nat n =
     (if n < 10 then [char_of (48 + n)]
      else string_of_nat (n div 10) @ [char_of (48 + n mod 10)])"

text \<open>\<^verbatim>\<open>Object.keys(v)\<close>: a TypeError on \<^verbatim>\<open>null\<close> and \<^verbatim>\<open>undefined\<close>.\<close>

fun Object_keys :: "jsval \<Rightarrow> js_error + string list" where
  "Object_keys Undefined = Inl (Error ''Cannot convert undefined or null to object'')"
| "Object_keys (Val JNull) = Inl (Error ''Cannot convert undefined or null to object'')"
| "Object_keys (Val (JObj kvs)) = Inr (map fst kvs)"
| "Object_keys (Val (JArr xs)) = Inr (map string_of_nat [0..<length xs])"
| "Object_keys (Val (JStr s)) = Inr (map string_of_nat [0..<length s])"
| "Object_keys (Val (JBool b)) = Inr []"
| "Object_keys (Val (JNum n)) = Inr []"

subsection \<open>The comparison with zero\<close>

text \<open>
  \<^verbatim>\<open>v > 0\<close> converts \<open>v\<close> to a number. For a string that is StringToNumber: white space
  around a decimal literal (sign, digits, fraction, exponent, or \<^verbatim>\<open>Infinity\<close>) or around
  an unsigned binary, octal or hexadecimal literal; anything else is NaN, which is not
  above zero.
\<close>

definition digits_value :: "string \<Rightarrow> nat" where
  "digits_value ds = foldl (\<lambda>n c. 10 * n + ((of_char c :: nat) - 48)) 0 ds"

text \<open>An exponent part, or nothing: the exponent; \<open>None\<close> for any other text.\<close>

definition exponent_part :: "string \<Rightarrow> int option" where
  "exponent_part r =
     (case r of
        [] \<Rightarrow> Some 0
      | c # ds \<Rightarrow>
          if c \<noteq> CHR ''e'' \<and> c \<noteq> CHR ''E'' then None
          else
            (case ds of
               [] \<Rightarrow> None
             | d # ds' \<Rightarrow>
                 if d = CHR ''+'' \<or> d = CHR ''-'' then
                   (if ds' \<noteq> [] \<and> list_all is_digit ds'
                    then Some (if d = CHR ''-'' then - int (digits_value ds') else int (digits_value ds'))
                    else None)
                 else if list_all is_digit ds then Some (int (digits_value ds))
                 else None))"

text \<open>The value of the digits \<open>m\<close> scaled by ten to the power \<open>k\<close>.\<close>

definition scaled :: "nat \<Rightarrow> int \<Rightarrow> rat" where
  "scaled m k = (if k \<ge> 0 then of_nat m * 10 ^ nat k else of_nat m / 10 ^ nat (- k))"

text \<open>
  An unsigned decimal literal other than \<^verbatim>\<open>Infinity\<close> whose Number value is above zero:
  its value is above \<open>1 / 2 ^ 1075\<close>, half the least positive double; up to there a
  value rounds to zero.
\<close>

definition decimal_positive :: "string \<Rightarrow> bool" where
  "decimal_positive u =
     (let ip = takeWhile is_digit u;
          r1 = dropWhile is_digit u;
          dot = (r1 \<noteq> [] \<and> hd r1 = CHR ''.'');
          fp = (if dot then takeWhile is_digit (tl r1) else []);
          r2 = (if dot then dropWhile is_digit (tl r1) else r1)
      in ip @ fp \<noteq> [] \<and>
         (case exponent_part r2 of
            None \<Rightarrow> False
          | Some e \<Rightarrow> scaled (digits_value (ip @ fp)) (e - int (length fp)) > 1 / 2 ^ 1075))"

text \<open>The digits of the literals \<^verbatim>\<open>0x\<close>, \<^verbatim>\<open>0o\<close> and \<^verbatim>\<open>0b\<close>.\<close>

definition radix_digits :: "char \<Rightarrow> string" where
  "radix_digits p =
     (if p = CHR ''x'' \<or> p = CHR ''X'' then ''0123456789abcdefABCDEF''
      else if p = CHR ''o'' \<or> p = CHR ''O'' then ''01234567''
      else if p = CHR ''b'' \<or> p = CHR ''B'' then ''01''
      else [])"

definition nondecimal_positive :: "string \<Rightarrow> bool" where
  "nondecimal_positive t =
     (case t of
        z # p # ds \<Rightarrow>
          z = CHR ''0'' \<and> ds \<noteq> [] \<and> list_all (\<lambda>c. c \<in> set (radix_digits p)) ds
          \<and> list_ex (\<lambda>c. c \<noteq> CHR ''0'') ds
      | _ \<Rightarrow> False)"

definition string_gt_zero :: "string \<Rightarrow> bool" where
  "string_gt_zero s =
     (case trim s of
        [] \<Rightarrow> False
      | c # u \<Rightarrow>
          if c = CHR ''-'' then False
          else if c = CHR ''+'' then u = ''Infinity'' \<or> decimal_positive u
          else c # u = ''Infinity'' \<or> decimal_positive (c # u) \<or> nondecimal_positive (c # u))"

text \<open>
  An array is converted through \<^verbatim>\<open>join\<close>: the text of one element alone can be a number
  (\<^verbatim>\<open>null\<close> gives the empty text, which is zero); with two or more elements the text holds
  a comma and is NaN.
\<close>

fun joined_gt_zero :: "json list \<Rightarrow> bool" where
  "joined_gt_zero [JNum n] = (n > 0)"
| "joined_gt_zero [JStr s] = string_gt_zero s"
| "joined_gt_zero [JArr ys] = joined_gt_zero ys"
| "joined_gt_zero xs = False"

fun number_gt_zero :: "json \<Rightarrow> bool" where
  "number_gt_zero JNull = False"
| "number_gt_zero (JBool b) = b"
| "number_gt_zero (JNum n) = (n > 0)"
| "number_gt_zero (JStr s) = string_gt_zero s"
| "number_gt_zero (JArr xs) = joined_gt_zero xs"
| "number_gt_zero (JObj kvs) = False"

text \<open>
  The conversion of an object to a primitive calls its \<^verbatim>\<open>toString\<close>; it throws a TypeError
  when the object has an own property of that name, which in JSON data is not a function.
  Without it the text is \<^verbatim>\<open>[object Object]\<close>, which is NaN.
\<close>

fun to_primitive_throws :: "json \<Rightarrow> bool" where
  "to_primitive_throws (JObj kvs) = (map_of kvs ''toString'' \<noteq> None)"
| "to_primitive_throws (JArr xs) = list_ex to_primitive_throws xs"
| "to_primitive_throws v = False"

text \<open>\<^verbatim>\<open>v > 0\<close>.\<close>

fun gt_zero :: "jsval \<Rightarrow> js_error + bool" where
  "gt_zero Undefined = Inr False"
| "gt_zero (Val v) =
     (if to_primitive_throws v then Inl (Error ''Cannot convert object to primitive value'')
      else Inr (number_gt_zero v))"

text \<open>\<^verbatim>\<open>a ?? b\<close>.\<close>

fun nullish_else :: "jsval \<Rightarrow> json \<Rightarrow> json" where
  "nullish_else Undefined d = d"
| "nullish_else (Val JNull) d = d"
| "nullish_else (Val v) d = v"

text \<open>The first value of the first row of \<^verbatim>\<open>result.results\<close>, \<^verbatim>\<open>null\<close> when there is none.\<close>

definition first_value :: "json \<Rightarrow> js_error + jsval" where
  "first_value result =
     (case get_prop result ''results'' of
        Inl e \<Rightarrow> Inl e
      | Inr results \<Rightarrow>
          if \<not> truthy results then Inr (Val JNull)
          else
            (case get_prop_val results ''length'' of
               Inl e \<Rightarrow> Inl e
             | Inr len \<Rightarrow>
                 (case gt_zero len of
                    Inl e \<Rightarrow> Inl e
                  | Inr False \<Rightarrow> Inr (Val JNull)
                  | Inr True \<Rightarrow>
                      (case get_prop_val results ''0'' of
                         Inl e \<Rightarrow> Inl e
                       | Inr firstRow \<Rightarrow>
                           (case Object_keys firstRow of
                              Inl e \<Rightarrow> Inl e
                            | Inr keys \<Rightarrow>
                                if length keys > 0 then get_prop_val firstRow (hd keys)
                                else Inr (Val JNull))))))"

text \<open>
  The \<^verbatim>\<open>try\<close> block of \<^verbatim>\<open>loadMetric\<close> after the call: \<open>r\<close> is what \<^verbatim>\<open>runSmartSQL\<close>
  settled to, the result is the state it leaves, or a throw.
\<close>

definition loadMetric_try ::
  "dashboard \<Rightarrow> metric_key \<Rightarrow> js_error + json \<Rightarrow> js_error + dashboard" where
  "loadMetric_try st metricKey r =
     (case r of
        Inl e \<Rightarrow> Inl e
      | Inr result \<Rightarrow>
          (case get_prop result ''error'' of
             Inl e \<Rightarrow> Inl e
           | Inr err \<Rightarrow>
               if truthy err
               then Inr (st\<lparr> metrics := (metrics st)(metricKey := DEMO_METRICS metricKey) \<rparr>)
               else
                 (case first_value result of
                    Inl e \<Rightarrow> Inl e
                  | Inr v \<Rightarrow>
                      Inr (st\<lparr> metrics :=
                                 (metrics st)(metricKey := nullish_else v (DEMO_METRICS metricKey)) \<rparr>))))"

text \<open>\<^verbatim>\<open>loadMetric\<close>, with the calls of \<^verbatim>\<open>fetch\<close> it made.\<close>

definition loadMetric ::
  "fetch \<Rightarrow> dashboard \<Rightarrow> metric_key \<Rightarrow> string \<Rightarrow> dashboard \<times> (string \<times> fetch_options) list" where
  "loadMetric fetch st metricKey queryText =
     (let st1 = st\<lparr> isLoadingMetrics := (isLoadingMetrics st)(metricKey := True),
                      metricsError := (metricsError st)(metricKey := JNull) \<rparr>;
          (r, calls) = runSmartSQL fetch (Val (JStr queryText));
          st2 = (case loadMetric_try st1 metricKey r of
                   Inl err \<Rightarrow> st1\<lparr> metrics := (metrics st1)(metricKey := DEMO_METRICS metricKey) \<rparr>
                 | Inr st' \<Rightarrow> st')
      in (st2\<lparr> isLoadingMetrics := (isLoadingMetrics st2)(metricKey := False) \<rparr>, calls))"

definition DEMO_SQL :: string where
  "DEMO_SQL = ''SELECT * FROM invoices ORDER BY created_at DESC LIMIT 5''"

definition demo_row :: "rat \<Rightarrow> string \<Rightarrow> string \<Rightarrow> rat \<Rightarrow> string \<Rightarrow> json" where
  "demo_row i n c t s =
     JObj [(''id'', JNum i), (''invoice_number'', JStr n), (''client_name'', JStr c),
           (''total_incl_vat'', JNum t), (''status'', JStr s)]"

definition DEMO_ROWS :: json where
  "DEMO_ROWS =
     JArr [demo_row 1 ''INV-001'' ''Acme Corp'' 11500 ''paid'',
           demo_row 2 ''INV-002'' ''Tech Solutions'' 8625 ''pending'',
           demo_row 3 ''INV-003'' ''Global Trade'' 23000 ''paid'',
           demo_row 4 ''INV-004'' ''Local Services'' 5750 ''overdue'',
           demo_row 5 ''INV-005'' ''StartUp Inc'' 17250 ''pending'']"

definition DEMO_QUERY_RESULTS :: "(string \<times> json) list" where
  "DEMO_QUERY_RESULTS = [(''sql'', JStr DEMO_SQL), (''results'', DEMO_ROWS)]"

text \<open>
  The demo results shown for a query: the spread of \<open>DEMO_QUERY_RESULTS\<close> with \<^verbatim>\<open>sql\<close>
  replaced by two comment lines, the second quoting the query, and the demo SQL.
\<close>

definition demo_results :: "string \<Rightarrow> json" where
  "demo_results trimmedQuery =
     JObj (map (\<lambda>(k, v).
                 if k = ''sql''
                 then (k, JStr (''-- Demo mode: SmartSQL not configured'' @ [CHR 0x0A]
                                @ ''-- Your query: '' @ [CHR 0x22] @ trimmedQuery @ [CHR 0x22] @ [CHR 0x0A]
                                @ DEMO_SQL))
                 else (k, v))
            DEMO_QUERY_RESULTS)"

text \<open>
  \<^verbatim>\<open>v.includes(k)\<close> on a truthy value: the substring test of a string, the membership test
  of an array, a TypeError on anything else (\<^verbatim>\<open>includes\<close> is not a function there).
\<close>

fun js_includes :: "json \<Rightarrow> string \<Rightarrow> js_error + bool" where
  "js_includes (JStr s) k = Inr (includes_str s k)"
| "js_includes (JArr xs) k = Inr (JStr k \<in> set xs)"
| "js_includes v k = Inl (Error ''result.error.includes is not a function'')"

text \<open>The \<^verbatim>\<open>try\<close> block of \<^verbatim>\<open>handleQuerySubmit\<close> after the call.\<close>

definition handleQuerySubmit_try ::
  "dashboard \<Rightarrow> string \<Rightarrow> js_error + json \<Rightarrow> js_error + dashboard" where
  "handleQuerySubmit_try st trimmedQuery r =
     (case r of
        Inl e \<Rightarrow> Inl e
      | Inr result \<Rightarrow>
          (case get_prop result ''error'' of
             Inl e \<Rightarrow> Inl e
           | Inr Undefined \<Rightarrow> Inr (st\<lparr> queryResults := result \<rparr>)
           | Inr (Val err) \<Rightarrow>
               if truthy (Val err) then
                 (case js_includes err ''400'' of
                    Inl e \<Rightarrow> Inl e
                  | Inr True \<Rightarrow> Inr (st\<lparr> queryResults := demo_results trimmedQuery \<rparr>)
                  | Inr False \<Rightarrow>
                      (case js_includes err ''SmartSQL'' of
                         Inl e \<Rightarrow> Inl e
                       | Inr True \<Rightarrow> Inr (st\<lparr> queryResults := demo_results trimmedQuery \<rparr>)
                       | Inr False \<Rightarrow> Inr (st\<lparr> error := err \<rparr>)))
               else Inr (st\<lparr> queryResults := result \<rparr>)))"

text \<open>\<^verbatim>\<open>handleQuerySubmit\<close>, with the calls of \<^verbatim>\<open>fetch\<close> it made.\<close>

definition handleQuerySubmit ::
  "fetch \<Rightarrow> dashboard \<Rightarrow> dashboard \<times> (string \<times> fetch_options) list" where
  "handleQuerySubmit fetch st =
     (let trimmedQuery = trim (query st) in
      if trimmedQuery = [] \<or> isQuerying st then (st, [])
      else
        (let st1 = st\<lparr> isQuerying := True, error := JNull, queryResults := JNull \<rparr>;
             (r, calls) = runSmartSQL fetch (Val (JStr trimmedQuery));
             st2 = (case handleQuerySubmit_try st1 trimmedQuery r of
                      Inl err \<Rightarrow> st1\<lparr> error := JStr ''An unexpected error occurred'' \<rparr>
                    | Inr st' \<Rightarrow> st')
         in (st2\<lparr> isQuerying := False \<rparr>, calls)))"

section \<open>Notions the properties are stated with\<close>

text \<open>A \<^verbatim>\<open>fetch\<close> that settles every call the same way, and a binding that does.\<close>

definition settles :: "js_error + response \<Rightarrow> fetch" where
  "settles r = (\<lambda>u options. r)"

definition delivers :: "js_error + jsval \<Rightarrow> string \<Rightarrow> js_error + jsval" where
  "delivers r = (\<lambda>q. r)"

text \<open>The request \<^verbatim>\<open>runSmartSQL\<close> sends for a query.\<close>

definition smartsql_url :: string where
  "smartsql_url = BASE_URL @ ''/api/smartsql''"

definition smartsql_options :: "jsval \<Rightarrow> fetch_options" where
  "smartsql_options q = createPostOptions (JObj (object_literal [(''query'', q)]))"

text \<open>
  The two groups of a result: \<^verbatim>\<open>sql\<close> with the rows (the field \<^verbatim>\<open>results\<close>), and
  \<^verbatim>\<open>error\<close>. A result is canonical when exactly one group is populated.
\<close>

fun has_field :: "string \<Rightarrow> json \<Rightarrow> bool" where
  "has_field k (JObj kvs) = (map_of kvs k \<noteq> None)"
| "has_field k v = False"

definition success_shaped :: "json \<Rightarrow> bool" where
  "success_shaped r = (has_field ''sql'' r \<and> has_field ''results'' r)"

definition error_shaped :: "json \<Rightarrow> bool" where
  "error_shaped r = has_field ''error'' r"

definition canonical :: "json \<Rightarrow> bool" where
  "canonical r =
     (if has_field ''error'' r
      then \<not> has_field ''sql'' r \<and> \<not> has_field ''results'' r
      else has_field ''sql'' r \<and> has_field ''results'' r)"

text \<open>The value a JSON text stands for.\<close>

fun parsed :: "json_text \<Rightarrow> json" where
  "parsed (JSON_stringify v) = v"



text \<open>
  The provider selection of the specification, first match wins: the primary provider is
  the SmartSQL binding, the secondary one the D1 database.
\<close>

datatype provider = Primary | Secondary | Unconfigured

definition spec_selection :: "env \<Rightarrow> provider" where
  "spec_selection e =
     (if SSQL e \<noteq> None then Primary else if DB e \<noteq> None then Secondary else Unconfigured)"

text \<open>The provider a request was run on, read off the calls it made on the bindings.\<close>

fun provider_used :: "effect list \<Rightarrow> provider" where
  "provider_used (SSQL_run q # effs) = Primary"
| "provider_used (DB_all q # effs) = Secondary"
| "provider_used [] = Unconfigured"

text \<open>A query that starts, case-insensitively, with one of the SQL keywords.\<close>

definition starts_with_sql_keyword :: "string \<Rightarrow> bool" where
  "starts_with_sql_keyword q =
     list_ex (\<lambda>keyword. map upper_char (take (length keyword) q) = keyword) sqlKeywords"

section \<open>Properties of the frontend API service\<close>

lemma truthy_or_else: "truthy (Val d) \<Longrightarrow> truthy (Val (or_else e d))"
  by (cases e) auto

lemma runSmartSQL_valid:
  "isValidStringInput q \<Longrightarrow>
   runSmartSQL fetch q = handleRequest fetch smartsql_url (smartsql_options q)"
  by (simp add: runSmartSQL_def smartsql_url_def smartsql_options_def)

lemma handleRequest_rejected:
  "fetch u options = Inl err \<Longrightarrow>
   fst (handleRequest fetch u options) = Inr (JObj [(''error'', JStr (''Network error: '' @ message err))])"
  by (simp add: handleRequest_def handleRequest_try_def)

lemma handleRequest_ok:
  "fetch u options = Inr resp \<Longrightarrow> ok resp \<Longrightarrow>
   fst (handleRequest fetch u options) =
     (case json_body resp of
        Inl err \<Rightarrow> Inr (JObj [(''error'', JStr (''Network error: '' @ message err))])
      | Inr data \<Rightarrow> Inr data)"
  by (simp add: handleRequest_def handleRequest_try_def split: sum.splits)

lemma handleRequest_not_ok:
  "fetch u options = Inr resp \<Longrightarrow> \<not> ok resp \<Longrightarrow>
   fst (handleRequest fetch u options) =
     Inr (JObj [(''error'',
       (case json_body resp of
          Inl err \<Rightarrow> JStr (''Network error: '' @ message err)
        | Inr data \<Rightarrow>
            (case get_prop data ''error'' of
               Inl err \<Rightarrow> JStr (''Network error: '' @ message err)
             | Inr e \<Rightarrow> or_else e (JStr ''Request failed''))))])"
  by (simp add: handleRequest_def handleRequest_try_def split: sum.splits)


lemmas run_simps = runSmartSQL_def handleRequest_def handleRequest_try_def settles_def ok_def
  trim_def isWhiteSpace_def createPostOptions_def BASE_URL_def smartsql_url_def smartsql_options_def


lemma isValidStringInput_iff:
  "isValidStringInput q \<longleftrightarrow> (\<exists>s. q = Val (JStr s) \<and> trim s \<noteq> [])"
  by (cases q rule: isValidStringInput.cases) simp_all

text \<open>
  C2. An input that is not a string, or a string that is empty after trimming, makes
  \<^verbatim>\<open>runSmartSQL\<close> return \<^verbatim>\<open>{error: "Query cannot be empty"}\<close> without any call of
  \<^verbatim>\<open>fetch\<close>, whatever \<^verbatim>\<open>fetch\<close> would do.
\<close>

theorem runSmartSQL_empty_input:
  assumes "\<not> is_string q \<or> (\<exists>s. q = Val (JStr s) \<and> trim s = [])"
  shows "runSmartSQL fetch q = (Inr (JObj [(''error'', JStr ''Query cannot be empty'')]), [])"
proof -
  have "\<not> isValidStringInput q"
    using assms by (cases q rule: isValidStringInput.cases) auto
  then show ?thesis by (simp add: runSmartSQL_def)
qed

theorem runSmartSQL_empty_input_witness:
  "runSmartSQL (\<lambda>u opts. Inr \<lparr> status = 200, json_body = Inr (JObj []) \<rparr>) (Val (JStr ''   ''))
     = (Inr (JObj [(''error'', JStr ''Query cannot be empty'')]), [])
   \<and> runSmartSQL (\<lambda>u opts. Inr \<lparr> status = 200, json_body = Inr (JObj []) \<rparr>) Undefined
     = (Inr (JObj [(''error'', JStr ''Query cannot be empty'')]), [])"
proof -
  have "trim ''   '' = []" by (simp add: trim_def isWhiteSpace_def)
  then have a: "\<not> is_string (Val (JStr ''   '')) \<or> (\<exists>s. Val (JStr ''   '') = Val (JStr s) \<and> trim s = [])"
    by simp
  have b: "\<not> is_string Undefined \<or> (\<exists>s. Undefined = Val (JStr s) \<and> trim s = [])"
    by simp
  show ?thesis
    using runSmartSQL_empty_input [OF a] runSmartSQL_empty_input [OF b] by simp
qed

text \<open>
  C1 as stated: every path of \<^verbatim>\<open>runSmartSQL\<close> yields a success-shaped result or an object
  with an error field. It fails for a response with status 200 and the body \<^verbatim>\<open>{}\<close>: the
  body is returned as it is, with neither shape.
\<close>

theorem runSmartSQL_result_shape_counterexample:
  "fst (runSmartSQL (settles (Inr \<lparr> status = 200, json_body = Inr (JObj []) \<rparr>))
          (Val (JStr ''Show me all invoices''))) = Inr (JObj [])
   \<and> \<not> success_shaped (JObj []) \<and> \<not> error_shaped (JObj [])"
  by (simp add: run_simps success_shaped_def error_shaped_def)

text \<open>
  C1, amended. \<^verbatim>\<open>runSmartSQL\<close> never throws, whatever the input and whatever \<^verbatim>\<open>fetch\<close>
  does. What it returns is an object whose only field is a truthy \<^verbatim>\<open>error\<close> (after a
  failed validation, a rejected \<^verbatim>\<open>fetch\<close>, a status outside 200 to 299 or a body that is
  not JSON), or else the parsed body of a response with a status from 200 to 299,
  unchanged and of whatever shape.
\<close>

theorem runSmartSQL_never_throws:
  "\<exists>r. fst (runSmartSQL fetch q) = Inr r \<and>
     ((\<exists>v. r = JObj [(''error'', v)] \<and> truthy (Val v))
      \<or> (isValidStringInput q \<and>
          (\<exists>resp. fetch smartsql_url (smartsql_options q) = Inr resp \<and> ok resp \<and> json_body resp = Inr r)))"
proof (cases "isValidStringInput q")
  case False
  then show ?thesis by (simp add: runSmartSQL_def)
next
  case valid: True
  show ?thesis
  proof (cases "fetch smartsql_url (smartsql_options q)")
    case (Inl err)
    then show ?thesis
      using valid handleRequest_rejected [of fetch smartsql_url "smartsql_options q" err]
      by (simp add: runSmartSQL_valid)
  next
    case (Inr resp)
    show ?thesis
    proof (cases "ok resp")
      case True
      then show ?thesis
        using valid Inr handleRequest_ok [of fetch smartsql_url "smartsql_options q" resp]
        by (cases "json_body resp") (simp_all add: runSmartSQL_valid)
    next
      case False
      then show ?thesis
        using valid Inr handleRequest_not_ok [of fetch smartsql_url "smartsql_options q" resp]
        by (auto simp add: runSmartSQL_valid truthy_or_else split: sum.splits)
    qed
  qed
qed

theorem runSmartSQL_never_throws_witness:
  "fst (runSmartSQL (settles (Inl (Error ''Failed to fetch''))) (Val (JStr ''Show me all invoices'')))
     = Inr (JObj [(''error'', JStr ''Network error: Failed to fetch'')])"
  using runSmartSQL_never_throws [of "settles (Inl (Error ''Failed to fetch''))" "Val (JStr ''Show me all invoices'')"]
  by (simp add: run_simps)

text \<open>
  C3. When the response has a status from 200 to 299 and its body is JSON with
  \<^verbatim>\<open>success\<close> true, \<^verbatim>\<open>sql\<close> \<open>S\<close> and \<^verbatim>\<open>results\<close> \<open>R\<close>, \<^verbatim>\<open>runSmartSQL\<close> returns that
  body itself: the result carries the same \<open>S\<close> and the same \<open>R\<close>, every row and every
  value as received.
\<close>

theorem runSmartSQL_success_passthrough:
  assumes "isValidStringInput q"
    and "fetch smartsql_url (smartsql_options q) = Inr resp"
    and "ok resp"
    and "json_body resp = Inr b"
    and "get_prop b ''success'' = Inr (Val (JBool True))"
    and "get_prop b ''sql'' = Inr (Val S)"
    and "get_prop b ''results'' = Inr (Val R)"
  shows "\<exists>r. fst (runSmartSQL fetch q) = Inr r \<and> r = b
           \<and> get_prop r ''sql'' = Inr (Val S) \<and> get_prop r ''results'' = Inr (Val R)"
  using assms handleRequest_ok [of fetch smartsql_url "smartsql_options q" resp]
  by (simp add: runSmartSQL_valid)

theorem runSmartSQL_success_passthrough_witness:
  "fst (runSmartSQL
         (settles (Inr \<lparr> status = 200,
                         json_body = Inr (JObj [(''success'', JBool True),
                                                (''sql'', JStr ''SELECT * FROM invoices''),
                                                (''results'', JArr [JObj [(''id'', JNum 1)]])]) \<rparr>))
         (Val (JStr ''Show me all invoices'')))
   = Inr (JObj [(''success'', JBool True),
                (''sql'', JStr ''SELECT * FROM invoices''),
                (''results'', JArr [JObj [(''id'', JNum 1)]])])"
proof -
  let ?b = "JObj [(''success'', JBool True), (''sql'', JStr ''SELECT * FROM invoices''),
                  (''results'', JArr [JObj [(''id'', JNum 1)]])]"
  let ?resp = "\<lparr> status = 200, json_body = Inr ?b \<rparr>"
  let ?q = "Val (JStr ''Show me all invoices'')"
  have 1: "isValidStringInput ?q" by (simp add: trim_def isWhiteSpace_def)
  have 2: "settles (Inr ?resp) smartsql_url (smartsql_options ?q) = Inr ?resp"
    by (simp add: settles_def)
  have 3: "ok ?resp" by (simp add: ok_def)
  have 4: "json_body ?resp = Inr ?b" by simp
  have 5: "get_prop ?b ''success'' = Inr (Val (JBool True))" by simp
  have 6: "get_prop ?b ''sql'' = Inr (Val (JStr ''SELECT * FROM invoices''))" by simp
  have 7: "get_prop ?b ''results'' = Inr (Val (JArr [JObj [(''id'', JNum 1)]]))" by simp
  show ?thesis
    using runSmartSQL_success_passthrough [where fetch = "settles (Inr ?resp)", OF 1 2 3 4 5 6 7] by simp
qed

text \<open>
  C4 as stated: a failure status with a body without an error field gives the message
  \<^verbatim>\<open>Request failed with status <code>\<close>. For status 500 and the body \<^verbatim>\<open>{}\<close> the code
  answers \<^verbatim>\<open>Request failed\<close>, without the status.
\<close>

theorem runSmartSQL_status_message_counterexample:
  "fst (runSmartSQL (settles (Inr \<lparr> status = 500, json_body = Inr (JObj []) \<rparr>))
          (Val (JStr ''Show me all invoices'')))
     = Inr (JObj [(''error'', JStr ''Request failed'')])
   \<and> JStr ''Request failed'' \<noteq> JStr ''Request failed with status 500''"
  by (simp add: run_simps)

text \<open>
  C4, amended. For a response with a status outside 200 to 299, \<^verbatim>\<open>runSmartSQL\<close> returns
  (and does not throw) an object whose only field is \<^verbatim>\<open>error\<close>: the \<^verbatim>\<open>error\<close> field of the
  body as it is when that field is truthy, \<^verbatim>\<open>Request failed\<close> when it is missing or
  falsy, and \<^verbatim>\<open>Network error: \<close> followed by the exception's message when the body is
  not JSON or is \<^verbatim>\<open>null\<close>.
\<close>

theorem runSmartSQL_failure_status:
  assumes "isValidStringInput q"
    and "fetch smartsql_url (smartsql_options q) = Inr resp"
    and "\<not> ok resp"
  shows "fst (runSmartSQL fetch q) =
     Inr (JObj [(''error'',
       (case json_body resp of
          Inl err \<Rightarrow> JStr (''Network error: '' @ message err)
        | Inr data \<Rightarrow>
            (case get_prop data ''error'' of
               Inl err \<Rightarrow> JStr (''Network error: '' @ message err)
             | Inr Undefined \<Rightarrow> JStr ''Request failed''
             | Inr (Val v) \<Rightarrow> if truthy (Val v) then v else JStr ''Request failed'')))])"
proof -
  have "fst (runSmartSQL fetch q) = fst (handleRequest fetch smartsql_url (smartsql_options q))"
    using assms(1) by (simp add: runSmartSQL_valid)
  also have "\<dots> = Inr (JObj [(''error'',
       (case json_body resp of
          Inl err \<Rightarrow> JStr (''Network error: '' @ message err)
        | Inr data \<Rightarrow>
            (case get_prop data ''error'' of
               Inl err \<Rightarrow> JStr (''Network error: '' @ message err)
             | Inr e \<Rightarrow> or_else e (JStr ''Request failed''))))])"
    using assms(2,3) by (rule handleRequest_not_ok)
  finally show ?thesis
    by (simp split: sum.splits jsval.splits)
qed

theorem runSmartSQL_failure_status_witness:
  "fst (runSmartSQL (settles (Inr \<lparr> status = 400,
            json_body = Inr (JObj [(''success'', JBool False), (''error'', JStr ''Unable to parse query'')]) \<rparr>))
          (Val (JStr ''gibberish query'')))
     = Inr (JObj [(''error'', JStr ''Unable to parse query'')])"
proof -
  let ?resp = "\<lparr> status = 400,
            json_body = Inr (JObj [(''success'', JBool False), (''error'', JStr ''Unable to parse query'')]) \<rparr>"
  let ?q = "Val (JStr ''gibberish query'')"
  have 1: "isValidStringInput ?q" by (simp add: trim_def isWhiteSpace_def)
  have 2: "settles (Inr ?resp) smartsql_url (smartsql_options ?q) = Inr ?resp"
    by (simp add: settles_def)
  have 3: "\<not> ok ?resp" by (simp add: ok_def)
  show ?thesis
    using runSmartSQL_failure_status [where fetch = "settles (Inr ?resp)", OF 1 2 3] by simp
qed

text \<open>
  C5 as stated: a body that cannot be parsed, under a success status, gives the error
  \<^verbatim>\<open>unexpected response shape\<close>. The code answers \<^verbatim>\<open>Network error: \<close> followed by the
  parser's message.
\<close>

theorem runSmartSQL_unparsable_counterexample:
  "fst (runSmartSQL
         (settles (Inr \<lparr> status = 200, json_body = Inl (Error ''Unexpected end of JSON input'') \<rparr>))
         (Val (JStr ''Show me all invoices'')))
     = Inr (JObj [(''error'', JStr ''Network error: Unexpected end of JSON input'')])
   \<and> JStr ''Network error: Unexpected end of JSON input'' \<noteq> JStr ''unexpected response shape''"
  by (simp add: run_simps)

text \<open>
  C5, amended. For a response with a status from 200 to 299, \<^verbatim>\<open>runSmartSQL\<close> returns
  \<^verbatim>\<open>{error: "Network error: <message>"}\<close> when the body is not JSON, and the parsed body
  unchanged otherwise, of whatever shape.
\<close>

theorem runSmartSQL_success_status:
  assumes "isValidStringInput q"
    and "fetch smartsql_url (smartsql_options q) = Inr resp"
    and "ok resp"
  shows "fst (runSmartSQL fetch q) =
     (case json_body resp of
        Inl err \<Rightarrow> Inr (JObj [(''error'', JStr (''Network error: '' @ message err))])
      | Inr data \<Rightarrow> Inr data)"
  using assms handleRequest_ok [of fetch smartsql_url "smartsql_options q" resp]
  by (simp add: runSmartSQL_valid)

theorem runSmartSQL_success_status_witness:
  "fst (runSmartSQL (settles (Inr \<lparr> status = 200, json_body = Inr (JArr [JNum 1, JNull]) \<rparr>))
          (Val (JStr ''Show me all invoices'')))
     = Inr (JArr [JNum 1, JNull])"
proof -
  let ?resp = "\<lparr> status = 200, json_body = Inr (JArr [JNum 1, JNull]) \<rparr>"
  let ?q = "Val (JStr ''Show me all invoices'')"
  have 1: "isValidStringInput ?q" by (simp add: trim_def isWhiteSpace_def)
  have 2: "settles (Inr ?resp) smartsql_url (smartsql_options ?q) = Inr ?resp"
    by (simp add: settles_def)
  have 3: "ok ?resp" by (simp add: ok_def)
  show ?thesis
    using runSmartSQL_success_status [where fetch = "settles (Inr ?resp)", OF 1 2 3] by simp
qed



section \<open>Properties of the worker and of the results\<close>

lemma canonical_failure [simp]:
  "canonical (JObj [(''success'', s), (''error'', e)])"
  "canonical (JObj [(''success'', s), (''error'', e), (''hint'', h)])"
  "canonical (JObj [(''error'', e)])"
  by (simp_all add: canonical_def)

lemma canonical_success [simp]:
  "canonical (JObj [(''success'', s), (''sql'', q), (''results'', r), (''metadata'', m)])"
  by (simp add: canonical_def)

lemma smartsql_branch_canonical:
  "smartsql_branch c run q = Inr r \<Longrightarrow> canonical (parsed (resp_body r))"
  by (auto simp add: smartsql_branch_def json_response_def split: sum.splits)

lemma d1_branch_canonical:
  "d1_branch c all q = Inr r \<Longrightarrow> canonical (parsed (resp_body r))"
  by (auto simp add: d1_branch_def json_response_def split: sum.splits)

lemma not_configured_canonical: "canonical (parsed (resp_body not_configured))"
  by (simp add: not_configured_def json_response_def)

lemma handleQuery_try_canonical:
  "fst (handleQuery_try c e q) = Inr r \<Longrightarrow> canonical (parsed (resp_body r))"
  by (auto simp add: handleQuery_try_def smartsql_branch_canonical d1_branch_canonical
      not_configured_canonical split: option.splits if_splits)

lemma run_query_canonical: "canonical (parsed (resp_body (fst (run_query c e q))))"
proof (cases "handleQuery_try c e q")
  case (Pair out effs)
  then show ?thesis
    using handleQuery_try_canonical [of c e q]
    by (cases out) (simp_all add: run_query_def json_response_def)
qed

lemma handleQuery_canonical: "canonical (parsed (resp_body (fst (handleQuery c e req))))"
  by (simp add: handleQuery_def run_query_canonical invalid_json_def missing_query_def json_response_def
      split: sum.splits jsval.splits json.splits)

text \<open>
  The worker passes on what the SmartSQL binding delivers: a truthy \<^verbatim>\<open>sql\<close> and truthy
  \<^verbatim>\<open>results\<close> (every array is truthy) reach the response body as they are.
\<close>

lemma smartsql_branch_passthrough:
  assumes "run t = Inr (Val result)"
    and "get_prop result ''sql'' = Inr (Val S)" and "truthy (Val S)"
    and "get_prop result ''results'' = Inr (Val R)" and "truthy (Val R)"
  shows "smartsql_branch c run t =
           Inr (json_response 200
                 (JObj [(''success'', JBool True), (''sql'', S), (''results'', R),
                        (''metadata'', metadata c t)]))"
proof -
  have "\<exists>rows. get_prop result ''rows'' = Inr rows"
    using assms(2) by (cases result) simp_all
  then show ?thesis
    using assms by (auto simp add: smartsql_branch_def)
qed

text \<open>
  C8 as stated: every result has exactly one of the two groups populated. A response with
  status 200 whose body holds \<^verbatim>\<open>sql\<close>, \<^verbatim>\<open>results\<close> and \<^verbatim>\<open>error\<close> is returned by
  \<^verbatim>\<open>runSmartSQL\<close> as it is, with both groups.
\<close>

theorem result_groups_counterexample:
  "fst (runSmartSQL
         (settles (Inr \<lparr> status = 200,
                         json_body = Inr (JObj [(''sql'', JStr ''SELECT 1''), (''results'', JArr []),
                                                (''error'', JStr ''partial failure'')]) \<rparr>))
         (Val (JStr ''Show me all invoices'')))
     = Inr (JObj [(''sql'', JStr ''SELECT 1''), (''results'', JArr []), (''error'', JStr ''partial failure'')])
   \<and> \<not> canonical (JObj [(''sql'', JStr ''SELECT 1''), (''results'', JArr []),
                          (''error'', JStr ''partial failure'')])"
  by (simp add: run_simps canonical_def)

text \<open>
  C8, amended. Every response body that \<^verbatim>\<open>handleQuery\<close> of the worker builds has exactly
  one group populated. Every result of \<^verbatim>\<open>runSmartSQL\<close> has exactly one group populated
  too, unless it is the parsed body of a response with a status from 200 to 299, which is
  returned unchanged.
\<close>

theorem result_groups:
  "canonical (parsed (resp_body (fst (handleQuery c e req))))
   \<and> (\<exists>r. fst (runSmartSQL fetch q) = Inr r \<and>
        (canonical r
         \<or> (isValidStringInput q \<and>
             (\<exists>resp. fetch smartsql_url (smartsql_options q) = Inr resp \<and> ok resp
                      \<and> json_body resp = Inr r))))"
proof
  show "canonical (parsed (resp_body (fst (handleQuery c e req))))"
    by (rule handleQuery_canonical)
next
  show "\<exists>r. fst (runSmartSQL fetch q) = Inr r \<and>
        (canonical r
         \<or> (isValidStringInput q \<and>
             (\<exists>resp. fetch smartsql_url (smartsql_options q) = Inr resp \<and> ok resp
                      \<and> json_body resp = Inr r)))"
  proof (cases "isValidStringInput q")
    case False
    then show ?thesis by (simp add: runSmartSQL_def)
  next
    case valid: True
    show ?thesis
    proof (cases "fetch smartsql_url (smartsql_options q)")
      case (Inl err)
      then show ?thesis
        using valid handleRequest_rejected [of fetch smartsql_url "smartsql_options q" err]
        by (simp add: runSmartSQL_valid)
    next
      case (Inr resp)
      show ?thesis
      proof (cases "ok resp")
        case True
        then show ?thesis
          using valid Inr handleRequest_ok [of fetch smartsql_url "smartsql_options q" resp]
          by (cases "json_body resp") (simp_all add: runSmartSQL_valid)
      next
        case False
        then show ?thesis
          using valid Inr handleRequest_not_ok [of fetch smartsql_url "smartsql_options q" resp]
          by (simp add: runSmartSQL_valid)
      qed
    qed
  qed
qed

theorem result_groups_witness:
  "canonical (parsed (resp_body (fst (handleQuery \<lparr> startTime = 0, endTime = 5, timestamp = ''2024-01-20T12:34:56.789Z'' \<rparr>
       \<lparr> SSQL = None, DB = None \<rparr> (Inr (JObj [(''query'', JStr ''Show me all invoices'')]))))))
   \<and> canonical (JObj [(''error'', JStr ''Query cannot be empty'')])
   \<and> fst (runSmartSQL (settles (Inl (Error ''Failed to fetch''))) (Val (JStr ''   '')))
       = Inr (JObj [(''error'', JStr ''Query cannot be empty'')])"
  using result_groups [of "\<lparr> startTime = 0, endTime = 5, timestamp = ''2024-01-20T12:34:56.789Z'' \<rparr>"
      "\<lparr> SSQL = None, DB = None \<rparr>" "Inr (JObj [(''query'', JStr ''Show me all invoices'')])"
      "settles (Inl (Error ''Failed to fetch''))" "Val (JStr ''   '')"]
  by (simp add: run_simps)

subsection \<open>The raw SQL test\<close>

lemma isWhiteSpace_upper_char: "isWhiteSpace (upper_char c) = isWhiteSpace c"
proof (cases "97 \<le> (of_char c :: nat) \<and> (of_char c :: nat) \<le> 122")
  case True
  then have "(of_char c :: nat) - 32 < 256" by linarith
  then have "(of_char (upper_char c) :: nat) = of_char c - 32"
    using True by (simp add: upper_char_def)
  then show ?thesis
    using True by (auto simp add: isWhiteSpace_def)
next
  case False
  then have "upper_char c = c" by (auto simp add: upper_char_def)
  then show ?thesis by simp
qed

lemma dropWhile_toUpperCase:
  "dropWhile isWhiteSpace (toUpperCase s) = toUpperCase (dropWhile isWhiteSpace s)"
  by (induction s) (simp_all add: toUpperCase_def isWhiteSpace_upper_char)

lemma trim_toUpperCase: "trim (toUpperCase s) = toUpperCase (trim s)"
proof -
  have "rev (toUpperCase s) = toUpperCase (rev s)" for s
    by (simp add: toUpperCase_def rev_map)
  then show ?thesis
    by (simp add: trim_def dropWhile_toUpperCase)
qed

lemma dropWhile_fixed: "xs = [] \<or> \<not> P (hd xs) \<Longrightarrow> dropWhile P xs = xs"
  by (cases xs) auto

lemma trim_idem: "trim (trim s) = trim s"
proof -
  let ?a = "dropWhile isWhiteSpace s"
  let ?b = "dropWhile isWhiteSpace (rev ?a)"
  have a: "?a = [] \<or> \<not> isWhiteSpace (hd ?a)"
    using hd_dropWhile [of isWhiteSpace s] by blast
  have "rev ?a = takeWhile isWhiteSpace (rev ?a) @ ?b" by simp
  then have "?a = rev ?b @ rev (takeWhile isWhiteSpace (rev ?a))"
    by (metis rev_append rev_rev_ident)
  then have "rev ?b = [] \<or> hd (rev ?b) = hd ?a"
    by (metis hd_append2)
  moreover have "?a = [] \<Longrightarrow> rev ?b = []"
    by (metis dropWhile.simps(1) rev.simps(1))
  ultimately have "rev ?b = [] \<or> \<not> isWhiteSpace (hd (rev ?b))"
    using a by metis
  then have "dropWhile isWhiteSpace (rev ?b) = rev ?b" by (rule dropWhile_fixed)
  then show ?thesis by (simp add: trim_def)
qed

lemma prefix_take: "prefix k s \<longleftrightarrow> take (length k) s = k"
  by (metis append_eq_conv_conj append_take_drop_id prefix_def)

lemma isRawSQL_trimmed: "isRawSQL (trim q) = starts_with_sql_keyword (trim q)"
proof -
  have "trim (toUpperCase (trim q)) = map upper_char (trim q)"
    by (simp add: trim_toUpperCase trim_idem) (simp add: toUpperCase_def)
  then show ?thesis
    by (simp add: isRawSQL_def starts_with_sql_keyword_def startsWith_def prefix_take take_map)
qed

lemma handleQuery_valid:
  assumes "get_prop b ''query'' = Inr (Val (JStr q))" and "trim q \<noteq> []"
  shows "handleQuery c e (Inr b) = run_query c e (trim q)"
proof -
  have "q \<noteq> []" using assms(2) by (auto simp add: trim_def)
  then show ?thesis using assms by (simp add: handleQuery_def)
qed

lemma run_query_effects: "snd (run_query c e t) = snd (handleQuery_try c e t)"
  by (simp add: run_query_def split: prod.splits sum.splits)



lemmas worker_simps = handleQuery_def run_query_def handleQuery_try_def d1_branch_def smartsql_branch_def
  isRawSQL_def startsWith_def sqlKeywords_def toUpperCase_def upper_char_def trim_def isWhiteSpace_def
  json_response_def not_configured_def delivers_def metadata_def





text \<open>
  C6 as stated: every call on the same configuration uses the provider that the
  first-match policy selects. With only the D1 database configured the policy selects
  the secondary provider; a call with \<^verbatim>\<open>SELECT 1\<close> runs on it, a call with
  \<^verbatim>\<open>Show me all invoices\<close> runs on no provider and is answered as unconfigured.
\<close>

theorem provider_per_call_counterexample:
  "spec_selection \<lparr> SSQL = None, DB = Some (delivers (Inr (Val (JObj [(''results'', JArr [])])))) \<rparr>
     = Secondary
   \<and> provider_used (snd (handleQuery
         \<lparr> startTime = 0, endTime = 5, timestamp = ''2024-01-20T12:34:56.789Z'' \<rparr>
         \<lparr> SSQL = None, DB = Some (delivers (Inr (Val (JObj [(''results'', JArr [])])))) \<rparr>
         (Inr (JObj [(''query'', JStr ''SELECT 1'')])))) = Secondary
   \<and> provider_used (snd (handleQuery
         \<lparr> startTime = 0, endTime = 5, timestamp = ''2024-01-20T12:34:56.789Z'' \<rparr>
         \<lparr> SSQL = None, DB = Some (delivers (Inr (Val (JObj [(''results'', JArr [])])))) \<rparr>
         (Inr (JObj [(''query'', JStr ''Show me all invoices'')])))) = Unconfigured"
  by (simp add: spec_selection_def worker_simps char_of_eq_iff)

text \<open>
  C6, amended. \<^verbatim>\<open>handleQuery\<close> picks the provider inside each call, from the bindings of
  \<^verbatim>\<open>env\<close> and the query alone: the provider of the first-match policy (SmartSQL binding,
  else D1 database, else none), except that with only the D1 database configured a query
  that does not start with a SQL keyword runs on no provider.
\<close>

theorem provider_of_call:
  assumes "get_prop b ''query'' = Inr (Val (JStr q))"
    and "trim q \<noteq> []"
  shows "provider_used (snd (handleQuery c e (Inr b))) =
           (if spec_selection e = Secondary \<and> \<not> starts_with_sql_keyword (trim q)
            then Unconfigured else spec_selection e)"
proof -
  have "snd (handleQuery c e (Inr b)) = snd (handleQuery_try c e (trim q))"
    by (simp add: handleQuery_valid [OF assms] run_query_effects)
  then show ?thesis
    by (auto simp add: handleQuery_try_def spec_selection_def isRawSQL_trimmed split: option.splits)
qed

theorem provider_of_call_witness:
  "provider_used (snd (handleQuery
         \<lparr> startTime = 0, endTime = 5, timestamp = ''2024-01-20T12:34:56.789Z'' \<rparr>
         \<lparr> SSQL = Some (delivers (Inr (Val (JObj [(''sql'', JStr ''SELECT * FROM invoices''),
                                                   (''results'', JArr [JObj [(''id'', JNum 1)]])])))),
           DB = Some (delivers (Inr (Val (JObj [(''results'', JArr [])])))) \<rparr>
         (Inr (JObj [(''query'', JStr ''Show me all invoices'')])))) = Primary"
proof -
  let ?e = "\<lparr> SSQL = Some (delivers (Inr (Val (JObj [(''sql'', JStr ''SELECT * FROM invoices''),
                                                   (''results'', JArr [JObj [(''id'', JNum 1)]])])))),
           DB = Some (delivers (Inr (Val (JObj [(''results'', JArr [])])))) \<rparr>"
  have 1: "get_prop (JObj [(''query'', JStr ''Show me all invoices'')]) ''query''
             = Inr (Val (JStr ''Show me all invoices''))" by simp
  have 2: "trim ''Show me all invoices'' \<noteq> []"
    by (simp add: trim_def isWhiteSpace_def)
  have 3: "spec_selection ?e = Primary" by (simp add: spec_selection_def)
  show ?thesis
    using provider_of_call [where e = ?e, OF 1 2] by (simp add: 3)
qed

section \<open>Properties of the dashboard\<close>

lemma includes_str_nonempty: "includes_str s k \<Longrightarrow> k \<noteq> [] \<Longrightarrow> s \<noteq> []"
  by (cases s) auto

lemma loadMetric_error:
  assumes "runSmartSQL fetch (Val (JStr queryText)) = (Inr result, calls)"
    and "get_prop result ''error'' = Inr err"
    and "truthy err"
  shows "fst (loadMetric fetch st metricKey queryText) =
           st\<lparr> metrics := (metrics st)(metricKey := DEMO_METRICS metricKey),
               isLoadingMetrics := (isLoadingMetrics st)(metricKey := False),
               metricsError := (metricsError st)(metricKey := JNull) \<rparr>"
  using assms by (simp add: loadMetric_def loadMetric_try_def)

lemma demo_results_eq:
  "demo_results t =
     JObj [(''sql'', JStr (''-- Demo mode: SmartSQL not configured'' @ [CHR 0x0A]
                           @ ''-- Your query: '' @ [CHR 0x22] @ t @ [CHR 0x22] @ [CHR 0x0A] @ DEMO_SQL)),
           (''results'', DEMO_ROWS)]"
  by (simp add: demo_results_def DEMO_QUERY_RESULTS_def)

lemma handleQuerySubmit_demo:
  assumes "trim (query st) \<noteq> []"
    and "\<not> isQuerying st"
    and "runSmartSQL fetch (Val (JStr (trim (query st)))) = (Inr result, calls)"
    and "get_prop result ''error'' = Inr (Val (JStr msg))"
    and "includes_str msg ''400'' \<or> includes_str msg ''SmartSQL''"
  shows "fst (handleQuerySubmit fetch st) =
           st\<lparr> isQuerying := False, error := JNull,
               queryResults := demo_results (trim (query st)) \<rparr>"
proof -
  have "msg \<noteq> []"
    using assms(5) includes_str_nonempty by fastforce
  then show ?thesis
    using assms
    by (cases "includes_str msg ''400''")
       (simp_all add: handleQuerySubmit_def handleQuerySubmit_try_def Let_def)
qed

text \<open>
  C9. When \<^verbatim>\<open>runSmartSQL\<close> returns a result with a truthy \<^verbatim>\<open>error\<close>, \<^verbatim>\<open>loadMetric\<close> sets the
  metric to its fixed demo value and shows no error (the metric's error stays
  \<^verbatim>\<open>null\<close>, the query error is untouched). When a query is submitted (not empty after
  trimming, none in flight) and the error message contains \<^verbatim>\<open>400\<close> or \<^verbatim>\<open>SmartSQL\<close>,
  \<^verbatim>\<open>handleQuerySubmit\<close> sets the query results to the fixed demo rows and to the fixed demo
  SQL, preceded by two comment lines of which the second quotes the query, and leaves the
  error state \<^verbatim>\<open>null\<close>.
\<close>

theorem demo_substitution:
  "(runSmartSQL fetch (Val (JStr queryText)) = (Inr result, calls)
      \<and> get_prop result ''error'' = Inr err \<and> truthy err
    \<longrightarrow> metrics (fst (loadMetric fetch st metricKey queryText)) metricKey = DEMO_METRICS metricKey
        \<and> metricsError (fst (loadMetric fetch st metricKey queryText)) metricKey = JNull
        \<and> error (fst (loadMetric fetch st metricKey queryText)) = error st)
   \<and> (trim (query st) \<noteq> [] \<and> \<not> isQuerying st
      \<and> runSmartSQL fetch' (Val (JStr (trim (query st)))) = (Inr result', calls')
      \<and> get_prop result' ''error'' = Inr (Val (JStr msg))
      \<and> (includes_str msg ''400'' \<or> includes_str msg ''SmartSQL'')
    \<longrightarrow> queryResults (fst (handleQuerySubmit fetch' st)) =
          JObj [(''sql'', JStr (''-- Demo mode: SmartSQL not configured'' @ [CHR 0x0A]
                                @ ''-- Your query: '' @ [CHR 0x22] @ trim (query st) @ [CHR 0x22]
                                @ [CHR 0x0A] @ DEMO_SQL)),
                (''results'', DEMO_ROWS)]
        \<and> error (fst (handleQuerySubmit fetch' st)) = JNull)"
proof (intro conjI impI)
  assume a: "runSmartSQL fetch (Val (JStr queryText)) = (Inr result, calls)
      \<and> get_prop result ''error'' = Inr err \<and> truthy err"
  then have eq: "fst (loadMetric fetch st metricKey queryText) =
           st\<lparr> metrics := (metrics st)(metricKey := DEMO_METRICS metricKey),
               isLoadingMetrics := (isLoadingMetrics st)(metricKey := False),
               metricsError := (metricsError st)(metricKey := JNull) \<rparr>"
    by (intro loadMetric_error) auto
  show "metrics (fst (loadMetric fetch st metricKey queryText)) metricKey = DEMO_METRICS metricKey"
    by (simp add: eq)
  show "metricsError (fst (loadMetric fetch st metricKey queryText)) metricKey = JNull"
    by (simp add: eq)
  show "error (fst (loadMetric fetch st metricKey queryText)) = error st"
    by (simp add: eq)
next
  assume b: "trim (query st) \<noteq> [] \<and> \<not> isQuerying st
      \<and> runSmartSQL fetch' (Val (JStr (trim (query st)))) = (Inr result', calls')
      \<and> get_prop result' ''error'' = Inr (Val (JStr msg))
      \<and> (includes_str msg ''400'' \<or> includes_str msg ''SmartSQL'')"
  then have eq: "fst (handleQuerySubmit fetch' st) =
           st\<lparr> isQuerying := False, error := JNull,
               queryResults := demo_results (trim (query st)) \<rparr>"
    by (intro handleQuerySubmit_demo) auto
  show "queryResults (fst (handleQuerySubmit fetch' st)) =
          JObj [(''sql'', JStr (''-- Demo mode: SmartSQL not configured'' @ [CHR 0x0A]
                                @ ''-- Your query: '' @ [CHR 0x22] @ trim (query st) @ [CHR 0x22]
                                @ [CHR 0x0A] @ DEMO_SQL)),
                (''results'', DEMO_ROWS)]"
    by (simp add: eq demo_results_eq)
  show "error (fst (handleQuerySubmit fetch' st)) = JNull"
    by (simp add: eq)
qed

theorem demo_substitution_witness:
  "metrics (fst (loadMetric (settles (Inr \<lparr> status = 500, json_body = Inr (JObj []) \<rparr>))
             \<lparr> metrics = (\<lambda>k. JNull), isLoadingMetrics = (\<lambda>k. True), metricsError = (\<lambda>k. JNull),
               query = '' Show me all invoices '', queryResults = JNull, isQuerying = False,
               error = JNull \<rparr>
             revenue ''Total revenue this month'')) revenue = JNum 125750
   \<and> queryResults (fst (handleQuerySubmit
             (settles (Inr \<lparr> status = 400,
                json_body = Inr (JObj [(''error'', JStr ''SmartSQL not configured'')]) \<rparr>))
             \<lparr> metrics = (\<lambda>k. JNull), isLoadingMetrics = (\<lambda>k. True), metricsError = (\<lambda>k. JNull),
               query = '' Show me all invoices '', queryResults = JNull, isQuerying = False,
               error = JNull \<rparr>))
       = JObj [(''sql'', JStr (''-- Demo mode: SmartSQL not configured'' @ [CHR 0x0A]
                               @ ''-- Your query: '' @ [CHR 0x22] @ ''Show me all invoices'' @ [CHR 0x22]
                               @ [CHR 0x0A] @ ''SELECT * FROM invoices ORDER BY created_at DESC LIMIT 5'')),
               (''results'', DEMO_ROWS)]"
proof -
  let ?st = "\<lparr> metrics = (\<lambda>k. JNull), isLoadingMetrics = (\<lambda>k. True), metricsError = (\<lambda>k. JNull),
               query = '' Show me all invoices '', queryResults = JNull, isQuerying = False,
               error = JNull \<rparr>"
  let ?f = "settles (Inr \<lparr> status = 500, json_body = Inr (JObj []) \<rparr>)"
  let ?f' = "settles (Inr \<lparr> status = 400,
                json_body = Inr (JObj [(''error'', JStr ''SmartSQL not configured'')]) \<rparr>)"
  let ?calls = "[(smartsql_url, smartsql_options (Val (JStr ''Total revenue this month'')))]"
  let ?calls' = "[(smartsql_url, smartsql_options (Val (JStr ''Show me all invoices'')))]"
  have t: "trim (query ?st) = ''Show me all invoices''"
    by (simp add: trim_def isWhiteSpace_def)
  have 1: "runSmartSQL ?f (Val (JStr ''Total revenue this month''))
             = (Inr (JObj [(''error'', JStr ''Request failed'')]), ?calls)"
    by (simp add: run_simps)
  have 2: "get_prop (JObj [(''error'', JStr ''Request failed'')]) ''error''
             = Inr (Val (JStr ''Request failed''))" by simp
  have 3: "truthy (Val (JStr ''Request failed''))" by simp
  have 4: "runSmartSQL ?f' (Val (JStr (trim (query ?st))))
             = (Inr (JObj [(''error'', JStr ''SmartSQL not configured'')]), ?calls')"
    unfolding t by (simp add: run_simps)
  have 5: "get_prop (JObj [(''error'', JStr ''SmartSQL not configured'')]) ''error''
             = Inr (Val (JStr ''SmartSQL not configured''))" by simp
  have 6: "includes_str ''SmartSQL not configured'' ''SmartSQL''" by simp
  have 7: "trim (query ?st) \<noteq> []" unfolding t by simp
  have 8: "\<not> isQuerying ?st" by simp
  show ?thesis
    using demo_substitution [where fetch = ?f and queryText = "''Total revenue this month''"
        and result = "JObj [(''error'', JStr ''Request failed'')]" and calls = ?calls
        and err = "Val (JStr ''Request failed'')" and st = ?st and metricKey = revenue
        and fetch' = ?f' and result' = "JObj [(''error'', JStr ''SmartSQL not configured'')]"
        and calls' = ?calls' and msg = "''SmartSQL not configured''"]
      1 2 3 4 5 6 7 8
    unfolding t by (simp add: DEMO_SQL_def)
qed

end
